theory Spec2Isabelle
  imports Complex_Main "HOL-Library.Sublist"
begin

section \<open>The quality settings of the mixer (mixer.h, struct qualitySettings)\<close>

text \<open>
  The three C++ enumerations of \<^verbatim>\<open>mixer::qualitySettings\<close>. \<^verbatim>\<open>Mode\<close> only
  selects a preset in the constructor and is a datatype. \<^verbatim>\<open>Interpolation\<close> and
  \<^verbatim>\<open>Oversampling\<close> are stored in the struct and inspected by \<^verbatim>\<open>switch\<close> statements
  that are followed by a fall-through \<^verbatim>\<open>return\<close>; they are kept as the integer value
  of the enumerator (0, 1, 2, 3 in declaration order), so that a value that is none of the
  enumerators reaches that last \<^verbatim>\<open>return\<close> as it does in the C++.
\<close>

datatype Mode = Mode_Draft | Mode_HighQuality | Mode_FinalMix

type_synonym Interpolation = int

definition Interpolation_Linear :: Interpolation where
  "Interpolation_Linear = 0"

definition Interpolation_SincFastest :: Interpolation where
  "Interpolation_SincFastest = 1"

definition Interpolation_SincMedium :: Interpolation where
  "Interpolation_SincMedium = 2"

definition Interpolation_SincBest :: Interpolation where
  "Interpolation_SincBest = 3"

type_synonym Oversampling = int

definition Oversampling_None :: Oversampling where
  "Oversampling_None = 0"

definition Oversampling_2x :: Oversampling where
  "Oversampling_2x = 1"

definition Oversampling_4x :: Oversampling where
  "Oversampling_4x = 2"

definition Oversampling_8x :: Oversampling where
  "Oversampling_8x = 3"

record qualitySettings =
  interpolation :: Interpolation
  oversampling :: Oversampling
  sampleExactControllers :: bool
  aliasFreeOscillators :: bool

text \<open>The constructor \<^verbatim>\<open>qualitySettings( Mode _m )\<close>: one preset per mode.\<close>

fun qualitySettings_Mode :: "Mode \<Rightarrow> qualitySettings" where
  "qualitySettings_Mode Mode_Draft =
     \<lparr> interpolation = Interpolation_Linear,
       oversampling = Oversampling_None,
       sampleExactControllers = False,
       aliasFreeOscillators = False \<rparr>"
| "qualitySettings_Mode Mode_HighQuality =
     \<lparr> interpolation = Interpolation_SincFastest,
       oversampling = Oversampling_2x,
       sampleExactControllers = True,
       aliasFreeOscillators = False \<rparr>"
| "qualitySettings_Mode Mode_FinalMix =
     \<lparr> interpolation = Interpolation_SincBest,
       oversampling = Oversampling_8x,
       sampleExactControllers = True,
       aliasFreeOscillators = True \<rparr>"

text \<open>
  \<^verbatim>\<open>int sampleRateMultiplier( void ) const\<close>: the four cases of the switch in the
  order of the source, then the \<^verbatim>\<open>return 1\<close> behind the switch.
\<close>

definition sampleRateMultiplier :: "qualitySettings \<Rightarrow> int" where
  "sampleRateMultiplier qs =
     (if oversampling qs = Oversampling_None then 1
      else if oversampling qs = Oversampling_2x then 2
      else if oversampling qs = Oversampling_4x then 4
      else if oversampling qs = Oversampling_8x then 8
      else 1)"

text \<open>
  The converter types of libsamplerate named by \<^verbatim>\<open>libsrcInterpolation\<close>. The header
  \<^verbatim>\<open>samplerate.h\<close> belongs to that library; its enumerators are distinct constants,
  which is all the mixer relies on, so they are the constructors of a datatype.
\<close>

datatype src_converter =
    SRC_SINC_BEST_QUALITY
  | SRC_SINC_MEDIUM_QUALITY
  | SRC_SINC_FASTEST
  | SRC_ZERO_ORDER_HOLD
  | SRC_LINEAR

text \<open>
  \<^verbatim>\<open>int libsrcInterpolation( void ) const\<close>: the switch over the interpolation, and
  the \<^verbatim>\<open>return SRC_LINEAR\<close> behind it.
\<close>

definition libsrcInterpolation :: "qualitySettings \<Rightarrow> src_converter" where
  "libsrcInterpolation qs =
     (if interpolation qs = Interpolation_Linear then SRC_ZERO_ORDER_HOLD
      else if interpolation qs = Interpolation_SincFastest then SRC_SINC_FASTEST
      else if interpolation qs = Interpolation_SincMedium then SRC_SINC_MEDIUM_QUALITY
      else if interpolation qs = Interpolation_SincBest then SRC_SINC_BEST_QUALITY
      else SRC_LINEAR)"

text \<open>
  Modelled from the spec: \<^verbatim>\<open>mixer::processingSampleRate\<close> is declared in mixer.h and
  defined in mixer.cpp, which is not among the sources. The specification gives
  \<^verbatim>\<open>processingSampleRate = outputSampleRate * oversamplingFactor\<close>; the output sample
  rate is the rate of the audio device and is a parameter here.
\<close>

definition processingSampleRate :: "int \<Rightarrow> qualitySettings \<Rightarrow> int" where
  "processingSampleRate outputSampleRate qs = outputSampleRate * sampleRateMultiplier qs"

section \<open>Samples and clipping (mixer.h, mixer::clip)\<close>

text \<open>
  Modelled from the spec: \<^verbatim>\<open>sample_t\<close> is declared in lmms_basics.h, which is not
  among the sources; the specification says that samples are floating point, and
  \<^verbatim>\<open>clip\<close> compares its argument with the literals \<^verbatim>\<open>1.0f\<close> and \<^verbatim>\<open>-1.0f\<close>.
  A floating-point sample is a finite number, one of the two infinities, or not a number.
  The finite values are taken from the reals (every finite float is one). \<^verbatim>\<open>clip\<close>
  does no arithmetic, only comparisons, and those are exact on floats: a comparison
  with a NaN operand is false, an infinity lies beyond every finite value.
\<close>

datatype sample_t = Finite real | PosInf | NegInf | NaN

fun sample_gt :: "sample_t \<Rightarrow> sample_t \<Rightarrow> bool" where
  "sample_gt NaN _ = False"
| "sample_gt _ NaN = False"
| "sample_gt PosInf PosInf = False"
| "sample_gt PosInf _ = True"
| "sample_gt NegInf _ = False"
| "sample_gt (Finite x) PosInf = False"
| "sample_gt (Finite x) NegInf = True"
| "sample_gt (Finite x) (Finite y) = (x > y)"

definition sample_lt :: "sample_t \<Rightarrow> sample_t \<Rightarrow> bool" where
  "sample_lt a b = sample_gt b a"

text \<open>\<^verbatim>\<open>static inline sample_t clip( const sample_t _s )\<close>.\<close>

definition clip :: "sample_t \<Rightarrow> sample_t" where
  "clip s =
     (if sample_gt s (Finite 1) then Finite 1
      else if sample_lt s (Finite (- 1)) then Finite (- 1)
      else s)"

text \<open>The closed interval from -1.0 to 1.0: only a finite sample can lie in it.\<close>

fun in_unit_range :: "sample_t \<Rightarrow> bool" where
  "in_unit_range (Finite x) = (- 1 \<le> x \<and> x \<le> 1)"
| "in_unit_range _ = False"

section \<open>The global mutex\<close>

text \<open>
  \<^verbatim>\<open>QMutex m_globalMutex\<close>. \<^verbatim>\<open>QMutex\<close> is a class of Qt, with the behaviour that
  Qt documents. A mutex is free or held by one thread. \<^verbatim>\<open>lock()\<close> takes a free mutex;
  on a recursive mutex the thread that holds it may lock it again, and has to unlock it as
  often; any other call of \<^verbatim>\<open>lock()\<close> on a held mutex does not return before the
  mutex is released (never, where the caller itself holds a mutex that is not recursive),
  and such a call has the result \<open>None\<close>. \<^verbatim>\<open>unlock()\<close> by a thread that does not
  hold the mutex is an error, with the result \<open>None\<close> as well. \<open>LockedBy t k\<close>: thread
  \<open>t\<close> holds the mutex and has locked it \<open>k\<close> more times after the first. The
  recursion mode is chosen where the mutex is constructed, which for
  \<^verbatim>\<open>m_globalMutex\<close> is in mixer.cpp; nothing below fixes it.
\<close>

type_synonym thread = nat

datatype RecursionMode = NonRecursive | Recursive

datatype lock_state = Unlocked | LockedBy thread nat

record QMutex =
  recursionMode :: RecursionMode
  lockState :: lock_state

definition QMutex_new :: "RecursionMode \<Rightarrow> QMutex" where
  "QMutex_new mode = \<lparr> recursionMode = mode, lockState = Unlocked \<rparr>"



section \<open>The state of the mixer (mixer.h, class mixer)\<close>

text \<open>
  A play handle and an output buffer are held by pointer; a pointer is modelled by the
  address it holds. The fields of \<^verbatim>\<open>class mixer\<close> that the operations below read or
  write:
  \<^item> \<^verbatim>\<open>m_cpuLoad\<close>;
  \<^item> \<^verbatim>\<open>m_playHandles\<close>, the vector of play handles;
  \<^item> \<^verbatim>\<open>m_globalMutex\<close>;
  \<^item> \<^verbatim>\<open>m_fifo\<close>, the buffer pool the pointer refers to, given by the buffers it
    holds, oldest first, and its depth;
  \<^item> \<^verbatim>\<open>m_fifoWriter\<close>, the pointer to the lookahead writer thread, \<open>None\<close> for
    \<^verbatim>\<open>NULL\<close>.
\<close>

type_synonym playHandle = nat

type_synonym buffer = nat

record fifoBuffer =
  depth :: nat
  queued :: "buffer list"

record mixer =
  m_cpuLoad :: int
  m_playHandles :: "playHandle list"
  m_globalMutex :: QMutex
  m_fifo :: fifoBuffer
  m_fifoWriter :: "nat option"









section \<open>The buffer pool and nextBuffer (mixer.h, mixer::nextBuffer)\<close>

text \<open>\<^verbatim>\<open>inline bool hasFifoWriter( void ) const\<close>.\<close>

definition hasFifoWriter :: "mixer \<Rightarrow> bool" where
  "hasFifoWriter m = (m_fifoWriter m \<noteq> None)"

text \<open>
  Modelled from the spec: the class template \<^verbatim>\<open>fifoBuffer\<close> (fifo_buffer.h) is not
  among the sources. The specification: the pool is "a fixed-depth ring" of buffers, the
  reader "pulls the oldest completed buffer", and the writer "waits until the pool has a
  free write slot" and then "pushes" the rendered buffer "into the pool". A call that has
  to wait does not return in this sequential model: its result is \<open>None\<close>.
\<close>

definition fifo_read :: "fifoBuffer \<Rightarrow> (buffer \<times> fifoBuffer) option" where
  "fifo_read f =
     (case queued f of
        [] \<Rightarrow> None
      | b # bs \<Rightarrow> Some (b, f\<lparr> queued := bs \<rparr>))"

definition fifo_write :: "buffer \<Rightarrow> fifoBuffer \<Rightarrow> fifoBuffer option" where
  "fifo_write b f =
     (if length (queued f) < depth f then Some (f\<lparr> queued := queued f @ [b] \<rparr>) else None)"

text \<open>
  \<^verbatim>\<open>inline const surroundSampleFrame * nextBuffer( void )\<close>, that is
  \<^verbatim>\<open>return hasFifoWriter() ? m_fifo->read() : renderNextBuffer();\<close>. The function
  \<^verbatim>\<open>renderNextBuffer\<close> is only declared in mixer.h: it is a parameter, which renders
  on the calling thread and gives the buffer and the state of the mixer afterwards.
\<close>

definition nextBuffer :: "(mixer \<Rightarrow> buffer \<times> mixer) \<Rightarrow> mixer \<Rightarrow> (buffer \<times> mixer) option" where
  "nextBuffer renderNextBuffer m =
     (if hasFifoWriter m
      then (case fifo_read (m_fifo m) of
              None \<Rightarrow> None
            | Some (b, f) \<Rightarrow> Some (b, m\<lparr> m_fifo := f \<rparr>))
      else Some (renderNextBuffer m))"

text \<open>
  Modelled from the spec: the lookahead writer (\<^verbatim>\<open>fifoWriter::run\<close>, in mixer.cpp) is
  not among the sources. One round of the writer pushes the buffer it has rendered into
  the pool, once the pool has a free slot.
\<close>

definition fifoWriter_push :: "buffer \<Rightarrow> mixer \<Rightarrow> mixer option" where
  "fifoWriter_push b m =
     (case fifo_write b (m_fifo m) of
        None \<Rightarrow> None
      | Some f \<Rightarrow> Some (m\<lparr> m_fifo := f \<rparr>))"

text \<open>
  A schedule of the two threads that use the pool: the writer pushes a rendered buffer
  (\<open>Write b\<close>), or the device asks for the next buffer (\<open>Read\<close>). Running a schedule
  gives the buffers that \<^verbatim>\<open>nextBuffer\<close> returned, in the order of the calls, and the
  state afterwards; a schedule in which a call would have to wait cannot be run.
\<close>

datatype pool_op = Write buffer | Read

fun run :: "(mixer \<Rightarrow> buffer \<times> mixer) \<Rightarrow> pool_op list \<Rightarrow> mixer \<Rightarrow> (buffer list \<times> mixer) option" where
  "run rn [] m = Some ([], m)"
| "run rn (Write b # ops) m =
     (case fifoWriter_push b m of
        None \<Rightarrow> None
      | Some m' \<Rightarrow> run rn ops m')"
| "run rn (Read # ops) m =
     (case nextBuffer rn m of
        None \<Rightarrow> None
      | Some (b, m') \<Rightarrow>
          (case run rn ops m' of
             None \<Rightarrow> None
           | Some (bs, m'') \<Rightarrow> Some (b # bs, m'')))"

text \<open>The buffers that a schedule renders, in the order in which they are rendered.\<close>

fun rendered :: "pool_op list \<Rightarrow> buffer list" where
  "rendered [] = []"
| "rendered (Write b # ops) = b # rendered ops"
| "rendered (Read # ops) = rendered ops"

section \<open>The worker pool and its two semaphores\<close>











section \<open>Properties\<close>

lemmas Interpolation_defs =
  Interpolation_Linear_def Interpolation_SincFastest_def
  Interpolation_SincMedium_def Interpolation_SincBest_def

lemmas Oversampling_defs =
  Oversampling_None_def Oversampling_2x_def Oversampling_4x_def Oversampling_8x_def

subsection \<open>Quality settings\<close>

text \<open>
  C4. The settings built from the Draft preset have linear interpolation and no
  oversampling: their sample-rate multiplier is 1 and the processing sample rate is the
  output sample rate, whatever that is. The settings built from the FinalMix preset have
  8x oversampling: their multiplier is 8, and at an output rate of 44100 the processing
  sample rate is 352800.
\<close>

theorem quality_presets_processing_rate:
  "interpolation (qualitySettings_Mode Mode_Draft) = Interpolation_Linear
   \<and> oversampling (qualitySettings_Mode Mode_Draft) = Oversampling_None
   \<and> sampleRateMultiplier (qualitySettings_Mode Mode_Draft) = 1
   \<and> processingSampleRate outputSampleRate (qualitySettings_Mode Mode_Draft) = outputSampleRate
   \<and> oversampling (qualitySettings_Mode Mode_FinalMix) = Oversampling_8x
   \<and> sampleRateMultiplier (qualitySettings_Mode Mode_FinalMix) = 8
   \<and> processingSampleRate 44100 (qualitySettings_Mode Mode_FinalMix) = 352800"
  by (simp add: sampleRateMultiplier_def processingSampleRate_def Oversampling_defs)

text \<open>
  C5. Whatever the quality settings hold, also an oversampling value that is none of the
  four enumerators, the sample-rate multiplier is 1, 2, 4 or 8.
\<close>

theorem sampleRateMultiplier_in_1_2_4_8:
  "sampleRateMultiplier qs \<in> {1, 2, 4, 8}"
  by (simp add: sampleRateMultiplier_def)

text \<open>
  C10. The converter chosen for each interpolation setting: zero-order hold for
  \<^verbatim>\<open>Interpolation_Linear\<close> (which is not the linear converter of libsamplerate), the
  fastest, the medium and the best sinc converter for the three sinc settings.
\<close>

theorem libsrcInterpolation_table:
  "libsrcInterpolation (qs\<lparr> interpolation := Interpolation_Linear \<rparr>) = SRC_ZERO_ORDER_HOLD
   \<and> SRC_ZERO_ORDER_HOLD \<noteq> SRC_LINEAR
   \<and> libsrcInterpolation (qs\<lparr> interpolation := Interpolation_SincFastest \<rparr>) = SRC_SINC_FASTEST
   \<and> libsrcInterpolation (qs\<lparr> interpolation := Interpolation_SincMedium \<rparr>)
       = SRC_SINC_MEDIUM_QUALITY
   \<and> libsrcInterpolation (qs\<lparr> interpolation := Interpolation_SincBest \<rparr>)
       = SRC_SINC_BEST_QUALITY"
  by (simp add: libsrcInterpolation_def Interpolation_defs)

subsection \<open>Clipping\<close>

text \<open>
  C3, as the code has it. A sample that is not a number is returned as it is, and lies in
  no interval. For every other sample, the infinities among them, the clipped sample lies
  between -1.0 and 1.0 inclusive; a sample that lies there already, 1.0 and -1.0 among
  them, is returned unchanged; and every sample above 1.0, such as the mixed sample 1.2 of
  two units that each give 0.6, is clipped to exactly 1.0.
\<close>

theorem clip_bounded_except_NaN:
  "(s \<noteq> NaN \<longrightarrow> in_unit_range (clip s))
   \<and> (in_unit_range s \<longrightarrow> clip s = s)
   \<and> clip (Finite 1) = Finite 1
   \<and> clip (Finite (- 1)) = Finite (- 1)
   \<and> (1 < x \<longrightarrow> clip (Finite x) = Finite 1)
   \<and> clip (Finite (12 / 10)) = Finite 1
   \<and> clip NaN = NaN"
proof -
  have bounded: "in_unit_range (clip s)" if "s \<noteq> NaN"
    using that by (cases s) (auto simp: clip_def sample_lt_def)
  have unchanged: "clip s = s" if "in_unit_range s"
    using that by (cases s) (auto simp: clip_def sample_lt_def)
  have above: "clip (Finite x) = Finite 1" if "1 < x"
    using that by (simp add: clip_def)
  show ?thesis
    using bounded unchanged above by (simp add: clip_def sample_lt_def)
qed

theorem clip_bounded_except_NaN_witness:
  "PosInf \<noteq> NaN \<and> in_unit_range (clip PosInf)
   \<and> in_unit_range (Finite (1 / 2)) \<and> clip (Finite (1 / 2)) = Finite (1 / 2)
   \<and> (1::real) < 3 \<and> clip (Finite 3) = Finite 1"
  using clip_bounded_except_NaN [of PosInf 3] clip_bounded_except_NaN [of "Finite (1 / 2)" 3]
  by simp

text \<open>
  C3, as the specification states it, fails for the sample that is not a number: both
  comparisons of \<^verbatim>\<open>clip\<close> are false for it, so it is returned, and it does not lie
  between -1.0 and 1.0.
\<close>

theorem clip_NaN_counterexample:
  "clip NaN = NaN \<and> \<not> in_unit_range (clip NaN)"
  by (simp add: clip_def sample_lt_def)

subsection \<open>The play-handle list\<close>





subsection \<open>The buffer pool\<close>

text \<open>
  C1, as the code has it. Whether \<^verbatim>\<open>nextBuffer()\<close> reads the pool or renders is
  decided by the lookahead writer alone. With a writer and a buffer in the pool, it
  returns the oldest buffer and takes it out of the pool. With a writer and an empty pool
  it still reads the pool, and so waits for the writer: it does not render. Without a
  writer it renders on the calling thread, whatever the pool holds.
\<close>

theorem nextBuffer_source:
  "(hasFifoWriter m \<and> queued (m_fifo m) = b # bs \<longrightarrow>
      nextBuffer rn m = Some (b, m\<lparr> m_fifo := (m_fifo m)\<lparr> queued := bs \<rparr> \<rparr>))
   \<and> (hasFifoWriter m \<and> queued (m_fifo m) = [] \<longrightarrow> nextBuffer rn m = None)
   \<and> (\<not> hasFifoWriter m \<longrightarrow> nextBuffer rn m = Some (rn m))"
  by (simp add: nextBuffer_def fifo_read_def)

theorem nextBuffer_source_witness:
  "hasFifoWriter
      \<lparr> m_cpuLoad = 40, m_playHandles = [],
        m_globalMutex = QMutex_new NonRecursive, m_fifo = \<lparr> depth = 4, queued = [11, 12] \<rparr>,
        m_fifoWriter = Some 1 \<rparr>
   \<and> nextBuffer (Pair 7)
        \<lparr> m_cpuLoad = 40, m_playHandles = [],
          m_globalMutex = QMutex_new NonRecursive, m_fifo = \<lparr> depth = 4, queued = [11, 12] \<rparr>,
          m_fifoWriter = Some 1 \<rparr>
       = Some (11,
          \<lparr> m_cpuLoad = 40, m_playHandles = [],
            m_globalMutex = QMutex_new NonRecursive, m_fifo = \<lparr> depth = 4, queued = [12] \<rparr>,
            m_fifoWriter = Some 1 \<rparr>)
   \<and> hasFifoWriter
      \<lparr> m_cpuLoad = 40, m_playHandles = [],
        m_globalMutex = QMutex_new NonRecursive, m_fifo = \<lparr> depth = 4, queued = [] \<rparr>,
        m_fifoWriter = Some 1 \<rparr>
   \<and> nextBuffer (Pair 7)
        \<lparr> m_cpuLoad = 40, m_playHandles = [],
          m_globalMutex = QMutex_new NonRecursive, m_fifo = \<lparr> depth = 4, queued = [] \<rparr>,
          m_fifoWriter = Some 1 \<rparr>
       = None
   \<and> \<not> hasFifoWriter
      \<lparr> m_cpuLoad = 40, m_playHandles = [],
        m_globalMutex = QMutex_new NonRecursive, m_fifo = \<lparr> depth = 4, queued = [11, 12] \<rparr>,
        m_fifoWriter = None \<rparr>
   \<and> nextBuffer (Pair 7)
        \<lparr> m_cpuLoad = 40, m_playHandles = [],
          m_globalMutex = QMutex_new NonRecursive, m_fifo = \<lparr> depth = 4, queued = [11, 12] \<rparr>,
          m_fifoWriter = None \<rparr>
       = Some (7,
          \<lparr> m_cpuLoad = 40, m_playHandles = [],
            m_globalMutex = QMutex_new NonRecursive, m_fifo = \<lparr> depth = 4, queued = [11, 12] \<rparr>,
            m_fifoWriter = None \<rparr>)"
  using
    nextBuffer_source [of
      "\<lparr> m_cpuLoad = 40, m_playHandles = [],
         m_globalMutex = QMutex_new NonRecursive, m_fifo = \<lparr> depth = 4, queued = [11, 12] \<rparr>,
         m_fifoWriter = Some 1 \<rparr>" 11 "[12]" "Pair 7"]
    nextBuffer_source [of
      "\<lparr> m_cpuLoad = 40, m_playHandles = [],
         m_globalMutex = QMutex_new NonRecursive, m_fifo = \<lparr> depth = 4, queued = [] \<rparr>,
         m_fifoWriter = Some 1 \<rparr>" 11 "[12]" "Pair 7"]
    nextBuffer_source [of
      "\<lparr> m_cpuLoad = 40, m_playHandles = [],
         m_globalMutex = QMutex_new NonRecursive, m_fifo = \<lparr> depth = 4, queued = [11, 12] \<rparr>,
         m_fifoWriter = None \<rparr>" 11 "[12]" "Pair 7"]
  by (simp add: hasFifoWriter_def)

text \<open>
  C1, as the specification states it, fails: with lookahead enabled and an empty pool,
  \<^verbatim>\<open>nextBuffer()\<close> does not return the buffer that rendering on the calling thread
  would give; it returns nothing, since it reads the pool.
\<close>

theorem nextBuffer_empty_pool_counterexample:
  "hasFifoWriter
      \<lparr> m_cpuLoad = 40, m_playHandles = [],
        m_globalMutex = QMutex_new NonRecursive, m_fifo = \<lparr> depth = 4, queued = [] \<rparr>,
        m_fifoWriter = Some 1 \<rparr>
   \<and> queued (m_fifo
        \<lparr> m_cpuLoad = 40, m_playHandles = [],
          m_globalMutex = QMutex_new NonRecursive, m_fifo = \<lparr> depth = 4, queued = [] \<rparr>,
          m_fifoWriter = Some 1 \<rparr>) = []
   \<and> nextBuffer (Pair 7)
        \<lparr> m_cpuLoad = 40, m_playHandles = [],
          m_globalMutex = QMutex_new NonRecursive, m_fifo = \<lparr> depth = 4, queued = [] \<rparr>,
          m_fifoWriter = Some 1 \<rparr>
       \<noteq> Some (Pair 7
          \<lparr> m_cpuLoad = 40, m_playHandles = [],
            m_globalMutex = QMutex_new NonRecursive, m_fifo = \<lparr> depth = 4, queued = [] \<rparr>,
            m_fifoWriter = Some 1 \<rparr>)"
  by (simp add: nextBuffer_def hasFifoWriter_def fifo_read_def)

lemma fifoWriter_push_Some:
  "fifoWriter_push b m = Some m' \<Longrightarrow>
     m_fifoWriter m' = m_fifoWriter m \<and> queued (m_fifo m') = queued (m_fifo m) @ [b]"
  by (auto simp: fifoWriter_push_def fifo_write_def split: option.splits if_splits)

lemma nextBuffer_pool_Some:
  "hasFifoWriter m \<Longrightarrow> nextBuffer rn m = Some (b, m') \<Longrightarrow>
     m_fifoWriter m' = m_fifoWriter m \<and> queued (m_fifo m) = b # queued (m_fifo m')"
  by (auto simp: nextBuffer_def fifo_read_def split: option.splits list.splits)

lemma run_pool_order:
  "hasFifoWriter m \<Longrightarrow> run rn ops m = Some (outs, m') \<Longrightarrow>
     outs @ queued (m_fifo m') = queued (m_fifo m) @ rendered ops"
proof (induction ops arbitrary: m outs)
  case Nil
  then show ?case by simp
next
  case (Cons op ops)
  show ?case
  proof (cases op)
    case (Write b)
    with Cons.prems obtain m1 where
      push: "fifoWriter_push b m = Some m1" and rest: "run rn ops m1 = Some (outs, m')"
      by (auto split: option.splits)
    from fifoWriter_push_Some [OF push] Cons.prems(1)
    have "hasFifoWriter m1" and "queued (m_fifo m1) = queued (m_fifo m) @ [b]"
      by (simp_all add: hasFifoWriter_def)
    with Cons.IH [OF _ rest] Write show ?thesis by simp
  next
    case Read
    with Cons.prems obtain b m1 bs where
      pull: "nextBuffer rn m = Some (b, m1)" and rest: "run rn ops m1 = Some (bs, m')"
      and outs: "outs = b # bs"
      by (auto split: option.splits prod.splits)
    from nextBuffer_pool_Some [OF Cons.prems(1) pull] Cons.prems(1)
    have "hasFifoWriter m1" and "queued (m_fifo m) = b # queued (m_fifo m1)"
      by (simp_all add: hasFifoWriter_def)
    with Cons.IH [OF _ rest] Read outs show ?thesis by simp
  qed
qed

text \<open>
  C8. With lookahead enabled, run any schedule of pushes by the writer and calls of
  \<^verbatim>\<open>nextBuffer()\<close> by the device. The buffers that \<^verbatim>\<open>nextBuffer()\<close> returned,
  followed by those still in the pool, are the buffers that the pool held at the start
  followed by the rendered ones, in the order of rendering: none is lost, repeated or
  moved. From an empty pool, the returned buffers are an initial part of the rendered
  sequence.
\<close>

theorem pool_delivers_in_render_order:
  assumes "hasFifoWriter m" and "run rn ops m = Some (outs, m')"
  shows "outs @ queued (m_fifo m') = queued (m_fifo m) @ rendered ops
         \<and> (queued (m_fifo m) = [] \<longrightarrow> prefix outs (rendered ops))"
proof -
  have eq: "outs @ queued (m_fifo m') = queued (m_fifo m) @ rendered ops"
    using assms by (rule run_pool_order)
  have "prefix outs (rendered ops)" if "queued (m_fifo m) = []"
    using eq that by (simp add: prefix_def) metis
  with eq show ?thesis by simp
qed

theorem pool_delivers_in_render_order_witness:
  "hasFifoWriter
      \<lparr> m_cpuLoad = 40, m_playHandles = [],
        m_globalMutex = QMutex_new NonRecursive, m_fifo = \<lparr> depth = 2, queued = [] \<rparr>,
        m_fifoWriter = Some 1 \<rparr>
   \<and> run (Pair 7) [Write 11, Write 12, Read, Write 13, Read]
        \<lparr> m_cpuLoad = 40, m_playHandles = [],
          m_globalMutex = QMutex_new NonRecursive, m_fifo = \<lparr> depth = 2, queued = [] \<rparr>,
          m_fifoWriter = Some 1 \<rparr>
       = Some ([11, 12],
          \<lparr> m_cpuLoad = 40, m_playHandles = [],
            m_globalMutex = QMutex_new NonRecursive, m_fifo = \<lparr> depth = 2, queued = [13] \<rparr>,
            m_fifoWriter = Some 1 \<rparr>)
   \<and> prefix [11, 12] (rendered [Write 11, Write 12, Read, Write 13, Read])"
proof -
  let ?m = "\<lparr> m_cpuLoad = 40, m_playHandles = [],
              m_globalMutex = QMutex_new NonRecursive, m_fifo = \<lparr> depth = 2, queued = [] \<rparr>,
              m_fifoWriter = Some (1::nat) \<rparr>"
  let ?m' = "\<lparr> m_cpuLoad = 40, m_playHandles = [],
               m_globalMutex = QMutex_new NonRecursive, m_fifo = \<lparr> depth = 2, queued = [13] \<rparr>,
               m_fifoWriter = Some (1::nat) \<rparr>"
  have w: "hasFifoWriter ?m"
    by (simp add: hasFifoWriter_def)
  have r: "run (Pair 7) [Write 11, Write 12, Read, Write 13, Read] ?m = Some ([11, 12], ?m')"
    by (simp add: fifoWriter_push_def fifo_write_def nextBuffer_def fifo_read_def
        hasFifoWriter_def)
  from pool_delivers_in_render_order [OF w r] w r show ?thesis
    by simp
qed

subsection \<open>The worker pool\<close>













end
